theory Spec2Isabelle
  imports Main
begin

section \<open>Data model (types.ts)\<close>

text \<open>
  The interfaces of \<^verbatim>\<open>types.ts\<close> as records. Field names carry a prefix, since a
  record field is a global constant in HOL. Numeric identifiers are integers.
\<close>

record GitHubAccount =
  login :: string
  account_id :: int

text \<open>
  The author object of a pull request. The declared interface gives it a login and an id
  only; \<^verbatim>\<open>RenovatePRFilter\<close> also reads its \<^verbatim>\<open>type\<close> property. The field
  \<open>account_type\<close> is that property of the object at run time: \<open>None\<close> when the
  object has no such property (the read yields \<^verbatim>\<open>undefined\<close>).
\<close>

record PullRequestUser = GitHubAccount +
  account_type :: "string option"

record RequestedTeam =
  requested_team_name :: string
  requested_team_id :: int

record PullRequestDetails =
  pr_id :: int
  pr_number :: int
  pr_state :: string
  pr_merged :: bool
  pr_merged_at :: "string option"
  pr_closed_at :: "string option"
  pr_user :: PullRequestUser
  requested_reviewers :: "GitHubAccount list"
  requested_teams :: "RequestedTeam list"
  assignees :: "GitHubAccount list"

record GitHubTeam =
  team_id :: int
  team_name :: string
  team_slug :: string
  team_organization :: GitHubAccount

record NotificationSubject =
  subject_title :: string
  subject_url :: string
  subject_latest_comment_url :: string
  subject_type :: string

record NotificationRepository =
  repository_id :: int
  repository_name :: string
  repository_full_name :: string
  repository_owner :: GitHubAccount

record GitHubNotification =
  notification_id :: string
  notification_unread :: bool
  notification_reason :: string
  notification_updated_at :: string
  notification_last_read_at :: "string option"
  notification_subject :: NotificationSubject
  notification_repository :: NotificationRepository
  notification_url :: string
  notification_subscription_url :: string

text \<open>
  \<^verbatim>\<open>NotificationFilter.shouldMarkAsDone(notification, prDetails?)\<close>: the optional
  argument is an \<open>option\<close>. The accessor \<^verbatim>\<open>() => GitHubTeam[] | null\<close> that the
  filters are constructed with is a function from \<open>unit\<close>; it is called when the filter
  runs, and \<open>None\<close> is \<^verbatim>\<open>null\<close> (teams not loaded yet).
\<close>

type_synonym NotificationFilter = "GitHubNotification \<Rightarrow> PullRequestDetails option \<Rightarrow> bool"

type_synonym TeamAccessor = "unit \<Rightarrow> GitHubTeam list option"

section \<open>The filters (notification-filters.ts)\<close>

text \<open>
  \<^verbatim>\<open>Array.prototype.some\<close>: left to right, stopping at the first element that
  satisfies the predicate. The logger calls of the filters return nothing and do not
  influence the result; they are left out.
\<close>

primrec array_some :: "('a \<Rightarrow> bool) \<Rightarrow> 'a list \<Rightarrow> bool" where
  "array_some p [] = False"
| "array_some p (x # xs) = (if p x then True else array_some p xs)"

definition MergedClosedPRFilter_isDirectReviewer ::
  "string \<Rightarrow> TeamAccessor \<Rightarrow> PullRequestDetails \<Rightarrow> bool" where
  "MergedClosedPRFilter_isDirectReviewer currentUser getUserTeams prDetails =
     (let isRequestedReviewer =
            array_some (\<lambda>reviewer. login reviewer = currentUser) (requested_reviewers prDetails)
      in if isRequestedReviewer then True
         else (case getUserTeams () of
                 Some userTeams \<Rightarrow>
                   (let isTeamReviewer =
                          array_some (\<lambda>requestedTeam.
                            array_some (\<lambda>userTeam.
                              team_name userTeam = requested_team_name requestedTeam \<or>
                              team_slug userTeam = requested_team_name requestedTeam) userTeams)
                            (requested_teams prDetails)
                    in if isTeamReviewer then True else False)
               | None \<Rightarrow> False))"

definition MergedClosedPRFilter_shouldMarkAsDone ::
  "string \<Rightarrow> TeamAccessor \<Rightarrow> NotificationFilter" where
  "MergedClosedPRFilter_shouldMarkAsDone currentUser getUserTeams notification prDetailsOpt =
     (if subject_type (notification_subject notification) \<noteq> ''PullRequest'' then False
      else case prDetailsOpt of
        None \<Rightarrow> False
      | Some prDetails \<Rightarrow>
          (let isMergedOrClosed = (pr_state prDetails = ''closed'' \<or> pr_merged prDetails = True)
           in if \<not> isMergedOrClosed then False
              else if MergedClosedPRFilter_isDirectReviewer currentUser getUserTeams prDetails
                   then False
              else if login (pr_user prDetails) = currentUser then False
              else if array_some (\<lambda>assignee. login assignee = currentUser) (assignees prDetails)
                   then False
              else True))"

definition RenovatePRFilter_isDirectReviewer :: "string \<Rightarrow> PullRequestDetails \<Rightarrow> bool" where
  "RenovatePRFilter_isDirectReviewer currentUser prDetails =
     (let isRequestedReviewer =
            array_some (\<lambda>reviewer. login reviewer = currentUser) (requested_reviewers prDetails)
      in if isRequestedReviewer then True else False)"

definition RenovatePRFilter_shouldMarkAsDone ::
  "string \<Rightarrow> TeamAccessor \<Rightarrow> NotificationFilter" where
  "RenovatePRFilter_shouldMarkAsDone currentUser getUserTeams notification prDetailsOpt =
     (if subject_type (notification_subject notification) \<noteq> ''PullRequest'' then False
      else case prDetailsOpt of
        None \<Rightarrow> False
      | Some prDetails \<Rightarrow>
          (let isRenovatePR = (login (pr_user prDetails) = ''renovate-sh-app[bot]'' \<and>
                               account_type (pr_user prDetails) = Some ''Bot'')
           in if \<not> isRenovatePR then False
              else if RenovatePRFilter_isDirectReviewer currentUser prDetails then False
              else if login (pr_user prDetails) = currentUser then False
              else if array_some (\<lambda>assignee. login assignee = currentUser) (assignees prDetails)
                   then False
              else True))"

text \<open>
  \<^verbatim>\<open>CompositeFilter.shouldMarkAsDone\<close>: the filters in order, the first that answers
  true ends the loop.
\<close>

fun CompositeFilter_shouldMarkAsDone :: "NotificationFilter list \<Rightarrow> NotificationFilter" where
  "CompositeFilter_shouldMarkAsDone [] notification prDetails = False"
| "CompositeFilter_shouldMarkAsDone (flt # filters) notification prDetails =
     (if flt notification prDetails then True
      else CompositeFilter_shouldMarkAsDone filters notification prDetails)"

text \<open>
  The filter list that the constructor of \<^verbatim>\<open>NotificationProcessor\<close> builds: the
  merged/closed filter first, then the Renovate filter, both over the same user and the
  same accessor.
\<close>

definition processor_filters :: "string \<Rightarrow> TeamAccessor \<Rightarrow> NotificationFilter list" where
  "processor_filters currentUser getUserTeams =
     [MergedClosedPRFilter_shouldMarkAsDone currentUser getUserTeams,
      RenovatePRFilter_shouldMarkAsDone currentUser getUserTeams]"

definition processor_filter :: "string \<Rightarrow> TeamAccessor \<Rightarrow> NotificationFilter" where
  "processor_filter currentUser getUserTeams =
     CompositeFilter_shouldMarkAsDone (processor_filters currentUser getUserTeams)"

section \<open>The team cache (cache.ts)\<close>

text \<open>
  A rejected promise (a raised exception) is the left side of a sum; the right side is
  the value the promise resolves to.
\<close>

datatype js_error = FsError | SyntaxError | TypeError | HttpError

text \<open>
  The arithmetic of \<^verbatim>\<open>getCachedTeams\<close> on JavaScript numbers, as far as the
  function uses it: times are integers (milliseconds), \<^verbatim>\<open>undefined\<close> converts to
  \<^verbatim>\<open>NaN\<close>, a difference with \<^verbatim>\<open>NaN\<close> is \<^verbatim>\<open>NaN\<close>, and every
  comparison with \<^verbatim>\<open>NaN\<close> is false. \<open>ToNumber\<close> takes the timestamp of a parsed
  record, where \<open>None\<close> stands for a property that does not convert to a number.
\<close>

datatype js_number = Number int | NaN

fun js_minus :: "js_number \<Rightarrow> js_number \<Rightarrow> js_number" where
  "js_minus (Number a) (Number b) = Number (a - b)"
| "js_minus _ _ = NaN"

fun js_greater :: "js_number \<Rightarrow> js_number \<Rightarrow> bool" where
  "js_greater (Number a) (Number b) = (a > b)"
| "js_greater _ _ = False"

fun ToNumber :: "int option \<Rightarrow> js_number" where
  "ToNumber (Some n) = Number n"
| "ToNumber None = NaN"

text \<open>
  \<^verbatim>\<open>fs.readJson(path) as TeamCache\<close>: the cast checks nothing, so the parsed value
  is whatever the file holds. The record keeps of a parsed object what the function
  reads:
  \<^item> \<open>cache_teams\<close>: the array under \<^verbatim>\<open>teams\<close>, \<open>None\<close> when the property is
    missing (objects with another kind of value there are not represented);
  \<^item> \<open>cache_timestamp\<close>: the property \<^verbatim>\<open>timestamp\<close> as the subtraction converts
    it to a number, in whole milliseconds; \<open>None\<close> when the conversion gives
    \<^verbatim>\<open>NaN\<close>, as it does for a missing property;
  \<^item> \<open>cache_username\<close>: the string under \<^verbatim>\<open>username\<close>, \<open>None\<close> when there is
    no string there (\<^verbatim>\<open>!==\<close> then holds against every username).
  The parsed value \<^verbatim>\<open>null\<close> has no properties at all; reading one raises a
  \<^verbatim>\<open>TypeError\<close>.
\<close>

record TeamCache =
  cache_teams :: "GitHubTeam list option"
  cache_timestamp :: "int option"
  cache_username :: "string option"

datatype json_value = JsonNull | JsonObject TeamCache

text \<open>
  A file of the cache directory either cannot be read, or does not parse as JSON, or
  parses to a value. The file system maps the paths that exist to their files.
\<close>

datatype cache_file = Unreadable | Unparsable | Json json_value

type_synonym filesystem = "string \<rightharpoonup> cache_file"

definition pathExists :: "filesystem \<Rightarrow> string \<Rightarrow> bool" where
  "pathExists fs path = (case fs path of None \<Rightarrow> False | Some _ \<Rightarrow> True)"

definition readJson :: "filesystem \<Rightarrow> string \<Rightarrow> js_error + json_value" where
  "readJson fs path =
     (case fs path of
        None \<Rightarrow> Inl FsError
      | Some Unreadable \<Rightarrow> Inl FsError
      | Some Unparsable \<Rightarrow> Inl SyntaxError
      | Some (Json v) \<Rightarrow> Inr v)"

record TeamCacheManager =
  cacheDir :: string
  cacheTTL :: int

text \<open>The constructor; its defaults are the directory \<^verbatim>\<open>.cache\<close> and 24 hours.\<close>

definition TeamCacheManager_new :: "string \<Rightarrow> int \<Rightarrow> TeamCacheManager" where
  "TeamCacheManager_new dir cacheTTLHours =
     \<lparr>cacheDir = dir, cacheTTL = cacheTTLHours * 60 * 60 * 1000\<rparr>"

text \<open>
  \<^verbatim>\<open>path.join(cacheDir, `teams-${username}.json`)\<close>, without the normalisation of
  dot segments that \<^verbatim>\<open>path.join\<close> performs.
\<close>

definition getCacheFilePath :: "TeamCacheManager \<Rightarrow> string \<Rightarrow> string" where
  "getCacheFilePath m username = cacheDir m @ ''/'' @ ''teams-'' @ username @ ''.json''"

text \<open>
  The body of the \<^verbatim>\<open>try\<close> block of \<^verbatim>\<open>getCachedTeams\<close>. The argument \<open>now\<close>
  is the value of \<^verbatim>\<open>Date.now()\<close>. The result \<open>None\<close> is \<^verbatim>\<open>null\<close>, and
  also the \<^verbatim>\<open>undefined\<close> that a record without teams yields: the caller tests the
  result for truthiness only.
\<close>

definition getCachedTeams_try ::
  "TeamCacheManager \<Rightarrow> filesystem \<Rightarrow> int \<Rightarrow> string \<Rightarrow> js_error + GitHubTeam list option" where
  "getCachedTeams_try m fs now username =
     (let cacheFilePath = getCacheFilePath m username
      in if \<not> pathExists fs cacheFilePath then Inr None
         else case readJson fs cacheFilePath of
           Inl error \<Rightarrow> Inl error
         | Inr JsonNull \<Rightarrow> Inl TypeError
         | Inr (JsonObject cacheData) \<Rightarrow>
             (let cacheAge = js_minus (Number now) (ToNumber (cache_timestamp cacheData))
              in if js_greater cacheAge (Number (cacheTTL m)) then Inr None
                 else if cache_username cacheData \<noteq> Some username then Inr None
                 else Inr (cache_teams cacheData)))"

text \<open>\<^verbatim>\<open>getCachedTeams\<close>: the \<^verbatim>\<open>catch\<close> clause turns every error into \<^verbatim>\<open>null\<close>.\<close>

definition getCachedTeams ::
  "TeamCacheManager \<Rightarrow> filesystem \<Rightarrow> int \<Rightarrow> string \<Rightarrow> js_error + GitHubTeam list option" where
  "getCachedTeams m fs now username =
     (case getCachedTeams_try m fs now username of
        Inl error \<Rightarrow> Inr None
      | Inr teams \<Rightarrow> Inr teams)"

section \<open>The processor (notification-processor.ts)\<close>

text \<open>
  The GitHub client is the remote side: the model takes the outcome of each of its calls
  as given. \<^verbatim>\<open>extractPullRequestInfo\<close> yields owner, repository and pull number, or
  nothing.
\<close>

record GitHubClient =
  client_getUserTeams :: "string \<Rightarrow> bool \<Rightarrow> js_error + GitHubTeam list"
  client_getNotifications :: "js_error + GitHubNotification list"
  client_extractPullRequestInfo :: "string \<Rightarrow> (string \<times> string \<times> int) option"
  client_getPullRequestDetails :: "string \<Rightarrow> string \<Rightarrow> int \<Rightarrow> js_error + PullRequestDetails"
  client_markThreadAsDone :: "string \<Rightarrow> js_error + unit"

text \<open>
  The lines the processor writes to its logger, one constructor per message, with the
  values the message interpolates.
\<close>

datatype log_level = LogInfo | LogWarn | LogError | LogDebug

datatype log_message =
    StartingThreadProcessing
  | LoadingTeams string
  | LoadedTeams nat string
  | FailedToLoadTeams string js_error
  | NoUnreadThreads
  | ProcessingThread string string
  | FailedToFetchPRDetails string js_error
  | DryRunWouldMark string
  | MarkedThreadAsDone string
  | KeepingThread string
  | ErrorProcessingThread string js_error
  | ProcessingComplete nat nat bool
  | FailedToProcessThreads js_error

text \<open>
  The fields of the class, the lines logged so far, and the threads marked as done at
  the remote side so far (both in order).
\<close>

record NotificationProcessor =
  proc_githubClient :: GitHubClient
  proc_currentUser :: string
  proc_userTeams :: "GitHubTeam list option"
  proc_dryRun :: bool
  proc_invalidateCache :: bool
  proc_log :: "(log_level \<times> log_message) list"
  proc_marked :: "string list"

definition NotificationProcessor_new ::
  "GitHubClient \<Rightarrow> string \<Rightarrow> bool \<Rightarrow> bool \<Rightarrow> NotificationProcessor" where
  "NotificationProcessor_new client user dryRun invalidate =
     \<lparr>proc_githubClient = client, proc_currentUser = user, proc_userTeams = None,
      proc_dryRun = dryRun, proc_invalidateCache = invalidate, proc_log = [],
      proc_marked = []\<rparr>"

definition logger :: "log_level \<Rightarrow> log_message \<Rightarrow> NotificationProcessor \<Rightarrow> NotificationProcessor" where
  "logger level message p = p\<lparr>proc_log := proc_log p @ [(level, message)]\<rparr>"

text \<open>
  \<^verbatim>\<open>this.filter\<close>: the accessor \<^verbatim>\<open>() => this.userTeams\<close> reads the field when
  the filter runs.
\<close>

definition proc_filter :: "NotificationProcessor \<Rightarrow> NotificationFilter" where
  "proc_filter p = processor_filter (proc_currentUser p) (\<lambda>_. proc_userTeams p)"

definition loadUserTeams :: "NotificationProcessor \<Rightarrow> js_error + NotificationProcessor" where
  "loadUserTeams p =
     (if proc_userTeams p = None then
        (let p1 = logger LogInfo (LoadingTeams (proc_currentUser p)) p
         in case client_getUserTeams (proc_githubClient p1) (proc_currentUser p1)
                   (proc_invalidateCache p1) of
              Inr teams \<Rightarrow>
                Inr (logger LogInfo (LoadedTeams (length teams) (proc_currentUser p1))
                       (p1\<lparr>proc_userTeams := Some teams\<rparr>))
            | Inl error \<Rightarrow>
                Inr ((logger LogWarn (FailedToLoadTeams (proc_currentUser p1) error) p1)
                       \<lparr>proc_userTeams := Some []\<rparr>))
      else Inr p)"

text \<open>The pull request details of one thread: absent unless every step succeeds.\<close>

definition fetchPRDetails ::
  "NotificationProcessor \<Rightarrow> GitHubNotification \<Rightarrow> PullRequestDetails option \<times> NotificationProcessor" where
  "fetchPRDetails p notification =
     (if subject_type (notification_subject notification) = ''PullRequest'' then
        (case client_extractPullRequestInfo (proc_githubClient p)
                (subject_url (notification_subject notification)) of
           Some (owner, repo, pullNumber) \<Rightarrow>
             (case client_getPullRequestDetails (proc_githubClient p) owner repo pullNumber of
                Inr prDetails \<Rightarrow> (Some prDetails, p)
              | Inl error \<Rightarrow>
                  (None, logger LogWarn
                           (FailedToFetchPRDetails (notification_id notification) error) p))
         | None \<Rightarrow> (None, p))
      else (None, p))"

text \<open>
  One round of the loop over the threads, with the two counters. An error of
  \<^verbatim>\<open>markThreadAsDone\<close> is caught by the inner \<^verbatim>\<open>try\<close>: the thread is then not
  counted. The pause between threads has no counterpart here.
\<close>

definition processThread ::
  "GitHubNotification \<Rightarrow> NotificationProcessor \<times> nat \<times> nat \<Rightarrow> NotificationProcessor \<times> nat \<times> nat" where
  "processThread notification st =
     (case st of (p, processedCount, markedAsDoneCount) \<Rightarrow>
        (let title = subject_title (notification_subject notification);
             p1 = logger LogDebug (ProcessingThread (notification_id notification) title) p;
             (prDetails, p2) = fetchPRDetails p1 notification
         in if proc_filter p2 notification prDetails then
              (if proc_dryRun p2 then
                 (logger LogInfo (DryRunWouldMark title) p2,
                  processedCount + 1, markedAsDoneCount + 1)
               else
                 (case client_markThreadAsDone (proc_githubClient p2)
                         (notification_id notification) of
                    Inr _ \<Rightarrow>
                      (logger LogInfo (MarkedThreadAsDone title)
                         (p2\<lparr>proc_marked := proc_marked p2 @ [notification_id notification]\<rparr>),
                       processedCount + 1, markedAsDoneCount + 1)
                  | Inl error \<Rightarrow>
                      (logger LogError
                         (ErrorProcessingThread (notification_id notification) error) p2,
                       processedCount, markedAsDoneCount)))
            else (logger LogDebug (KeepingThread title) p2,
                  processedCount + 1, markedAsDoneCount)))"

fun processThreads ::
  "GitHubNotification list \<Rightarrow> NotificationProcessor \<times> nat \<times> nat \<Rightarrow> NotificationProcessor \<times> nat \<times> nat" where
  "processThreads [] st = st"
| "processThreads (notification # notifications) st =
     processThreads notifications (processThread notification st)"

text \<open>
  \<^verbatim>\<open>processNotifications\<close>: the outcome of the run (an error when the run aborts)
  and the processor afterwards.
\<close>

definition processNotifications ::
  "NotificationProcessor \<Rightarrow> (js_error + unit) \<times> NotificationProcessor" where
  "processNotifications p =
     (let p0 = logger LogInfo StartingThreadProcessing p
      in case loadUserTeams p0 of
           Inl error \<Rightarrow> (Inl error, logger LogError (FailedToProcessThreads error) p0)
         | Inr p1 \<Rightarrow>
             (case client_getNotifications (proc_githubClient p1) of
                Inl error \<Rightarrow> (Inl error, logger LogError (FailedToProcessThreads error) p1)
              | Inr notifications \<Rightarrow>
                  if notifications = [] then (Inr (), logger LogInfo NoUnreadThreads p1)
                  else (case processThreads notifications (p1, 0, 0) of
                          (p2, processedCount, markedAsDoneCount) \<Rightarrow>
                            (Inr (), logger LogInfo
                               (ProcessingComplete processedCount markedAsDoneCount (proc_dryRun p2))
                               p2))))"

section \<open>Vocabulary of the properties and concrete inputs\<close>

text \<open>
  The teams of the user's current snapshot: those the accessor yields, none while the
  teams are not loaded.
\<close>

definition snapshot_teams :: "TeamAccessor \<Rightarrow> GitHubTeam list" where
  "snapshot_teams getUserTeams =
     (case getUserTeams () of None \<Rightarrow> [] | Some userTeams \<Rightarrow> userTeams)"

definition teams_loaded :: "GitHubTeam list \<Rightarrow> TeamAccessor" where
  "teams_loaded userTeams = (\<lambda>_. Some userTeams)"

definition example_account :: "string \<Rightarrow> GitHubAccount" where
  "example_account name = \<lparr>login = name, account_id = 1\<rparr>"

definition example_author :: "string \<Rightarrow> string option \<Rightarrow> PullRequestUser" where
  "example_author name type = \<lparr>login = name, account_id = 1, account_type = type\<rparr>"

definition example_requested_team :: "string \<Rightarrow> RequestedTeam" where
  "example_requested_team name = \<lparr>requested_team_name = name, requested_team_id = 7\<rparr>"

definition example_team :: "string \<Rightarrow> string \<Rightarrow> GitHubTeam" where
  "example_team name slug =
     \<lparr>team_id = 7, team_name = name, team_slug = slug,
      team_organization = example_account ''acme''\<rparr>"

definition example_notification :: "string \<Rightarrow> GitHubNotification" where
  "example_notification type =
     \<lparr>notification_id = ''1001'', notification_unread = True,
      notification_reason = ''subscribed'', notification_updated_at = ''2024-01-01T00:00:00Z'',
      notification_last_read_at = None,
      notification_subject =
        \<lparr>subject_title = ''Update dependency'',
         subject_url = ''https://api.github.com/repos/acme/app/pulls/12'',
         subject_latest_comment_url = [], subject_type = type\<rparr>,
      notification_repository =
        \<lparr>repository_id = 5, repository_name = ''app'', repository_full_name = ''acme/app'',
         repository_owner = example_account ''acme''\<rparr>,
      notification_url = ''https://api.github.com/notifications/threads/1001'',
      notification_subscription_url = []\<rparr>"

definition example_pr ::
  "string \<Rightarrow> bool \<Rightarrow> PullRequestUser \<Rightarrow> GitHubAccount list \<Rightarrow> RequestedTeam list \<Rightarrow>
   GitHubAccount list \<Rightarrow> PullRequestDetails" where
  "example_pr state merged author reviewers teams assigned =
     \<lparr>pr_id = 900, pr_number = 12, pr_state = state, pr_merged = merged,
      pr_merged_at = None, pr_closed_at = None, pr_user = author,
      requested_reviewers = reviewers, requested_teams = teams, assignees = assigned\<rparr>"

text \<open>The author that the Renovate filter recognises.\<close>

definition renovate_bot :: PullRequestUser where
  "renovate_bot = example_author ''renovate-sh-app[bot]'' (Some ''Bot'')"

text \<open>A cache manager with the default settings, cache files and a file system for it.\<close>

definition example_manager :: TeamCacheManager where
  "example_manager = TeamCacheManager_new ''.cache'' 24"

definition example_record ::
  "GitHubTeam list option \<Rightarrow> int option \<Rightarrow> string option \<Rightarrow> cache_file" where
  "example_record teams timestamp username =
     Json (JsonObject \<lparr>cache_teams = teams, cache_timestamp = timestamp,
                       cache_username = username\<rparr>)"

definition example_fs :: "string \<Rightarrow> cache_file \<Rightarrow> filesystem" where
  "example_fs username file = [getCacheFilePath example_manager username \<mapsto> file]"

text \<open>
  A client whose team lookup fails, while every other call succeeds: each pull request
  is closed, unmerged, written by alice, with nobody requested or assigned.
\<close>

definition failing_teams_client :: "GitHubNotification list \<Rightarrow> GitHubClient" where
  "failing_teams_client notifications =
     \<lparr>client_getUserTeams = (\<lambda>username invalidate. Inl HttpError),
      client_getNotifications = Inr notifications,
      client_extractPullRequestInfo = (\<lambda>url. Some (''acme'', ''app'', 12)),
      client_getPullRequestDetails =
        (\<lambda>owner repo pullNumber.
           Inr (example_pr ''closed'' False (example_author ''alice'' None) [] [] [])),
      client_markThreadAsDone = (\<lambda>threadId. Inr ())\<rparr>"

section \<open>Auxiliary facts\<close>

lemmas example_defs =
  example_account_def example_author_def example_requested_team_def example_team_def
  example_notification_def example_pr_def renovate_bot_def teams_loaded_def snapshot_teams_def

lemmas cache_defs =
  example_manager_def example_record_def example_fs_def TeamCacheManager_new_def

lemma array_some_iff: "array_some p xs = (\<exists>x\<in>set xs. p x)"
  by (induction xs) auto

lemma isDirectReviewer_iff:
  "MergedClosedPRFilter_isDirectReviewer cu g pr =
     ((\<exists>r\<in>set (requested_reviewers pr). login r = cu) \<or>
      (\<exists>rt\<in>set (requested_teams pr). \<exists>ut\<in>set (snapshot_teams g).
          team_name ut = requested_team_name rt \<or> team_slug ut = requested_team_name rt))"
  by (auto simp: MergedClosedPRFilter_isDirectReviewer_def snapshot_teams_def array_some_iff
        Let_def split: option.splits)

lemma renovate_isDirectReviewer_iff:
  "RenovatePRFilter_isDirectReviewer cu pr = (\<exists>r\<in>set (requested_reviewers pr). login r = cu)"
  by (simp add: RenovatePRFilter_isDirectReviewer_def array_some_iff)

lemma getCachedTeams_object:
  assumes "fs (getCacheFilePath m u) = Some (Json (JsonObject c))"
  shows "getCachedTeams m fs now u =
     Inr (if js_greater (js_minus (Number now) (ToNumber (cache_timestamp c)))
               (Number (cacheTTL m))
          then None
          else if cache_username c \<noteq> Some u then None else cache_teams c)"
  using assms
  by (simp add: getCachedTeams_def getCachedTeams_try_def pathExists_def readJson_def Let_def)

lemma logger_simps [simp]:
  "proc_log (logger level message p) = proc_log p @ [(level, message)]"
  "proc_userTeams (logger level message p) = proc_userTeams p"
  "proc_githubClient (logger level message p) = proc_githubClient p"
  "proc_currentUser (logger level message p) = proc_currentUser p"
  "proc_dryRun (logger level message p) = proc_dryRun p"
  "proc_invalidateCache (logger level message p) = proc_invalidateCache p"
  "proc_marked (logger level message p) = proc_marked p"
  by (simp_all add: logger_def)

text \<open>
  Fetching the details, one round of the loop and the whole loop leave the team snapshot
  alone and only add lines to the log; each round logs the thread it starts on.
\<close>

lemma fetchPRDetails_keeps:
  assumes "fetchPRDetails p n = (d, p')"
  shows "proc_userTeams p' = proc_userTeams p \<and> set (proc_log p) \<subseteq> set (proc_log p')"
  using assms
  by (auto simp: fetchPRDetails_def split: if_splits option.splits sum.splits prod.splits)

lemma processThread_keeps:
  assumes "processThread n (p, a, b) = (p', a', b')"
  shows "proc_userTeams p' = proc_userTeams p \<and>
         set (proc_log p) \<subseteq> set (proc_log p') \<and>
         (LogDebug, ProcessingThread (notification_id n) (subject_title (notification_subject n)))
           \<in> set (proc_log p')"
proof -
  let ?p1 = "logger LogDebug (ProcessingThread (notification_id n)
                (subject_title (notification_subject n))) p"
  obtain d p2 where f: "fetchPRDetails ?p1 n = (d, p2)"
    by (cases "fetchPRDetails ?p1 n")
  from fetchPRDetails_keeps [OF f]
  have k: "proc_userTeams p2 = proc_userTeams p" "set (proc_log ?p1) \<subseteq> set (proc_log p2)"
    by simp_all
  from assms f
  have "proc_userTeams p' = proc_userTeams p2 \<and> set (proc_log p2) \<subseteq> set (proc_log p')"
    by (auto simp: processThread_def Let_def split: if_splits sum.splits)
  with k show ?thesis by auto
qed

lemma processThreads_keeps:
  assumes "processThreads ns (p, a, b) = (p', a', b')"
  shows "proc_userTeams p' = proc_userTeams p \<and>
         set (proc_log p) \<subseteq> set (proc_log p') \<and>
         (\<forall>n\<in>set ns.
            (LogDebug, ProcessingThread (notification_id n) (subject_title (notification_subject n)))
              \<in> set (proc_log p'))"
  using assms
proof (induction ns arbitrary: p a b)
  case Nil
  then show ?case by simp
next
  case (Cons n ns)
  obtain q c d where step: "processThread n (p, a, b) = (q, c, d)"
    by (cases "processThread n (p, a, b)")
  with Cons.prems have rest: "processThreads ns (q, c, d) = (p', a', b')" by simp
  from processThread_keeps [OF step] Cons.IH [OF rest] show ?case by auto
qed

section \<open>The decision rules\<close>

text \<open>
  A pull request of the recognised bot that is still open and that the user has no part
  in: the Renovate filter answers true and the composite filter marks the thread as done.
\<close>

theorem renovate_open_pr_counterexample:
  "subject_type (notification_subject (example_notification ''PullRequest'')) = ''PullRequest'' \<and>
   login (pr_user (example_pr ''open'' False renovate_bot [] [] [])) = ''renovate-sh-app[bot]'' \<and>
   account_type (pr_user (example_pr ''open'' False renovate_bot [] [] [])) = Some ''Bot'' \<and>
   pr_state (example_pr ''open'' False renovate_bot [] [] []) = ''open'' \<and>
   pr_merged (example_pr ''open'' False renovate_bot [] [] []) = False \<and>
   RenovatePRFilter_shouldMarkAsDone ''bob'' (teams_loaded [])
     (example_notification ''PullRequest'')
     (Some (example_pr ''open'' False renovate_bot [] [] [])) = True \<and>
   processor_filter ''bob'' (teams_loaded [])
     (example_notification ''PullRequest'')
     (Some (example_pr ''open'' False renovate_bot [] [] [])) = True"
  by (simp add: example_defs processor_filter_def processor_filters_def
        MergedClosedPRFilter_shouldMarkAsDone_def RenovatePRFilter_shouldMarkAsDone_def
        RenovatePRFilter_isDirectReviewer_def)

text \<open>
  C1, as the code has it. For a PullRequest notification with details whose author has
  the login \<^verbatim>\<open>renovate-sh-app[bot]\<close> and the account type \<^verbatim>\<open>Bot\<close>, in state
  open and not merged: the merged/closed rule returns false; the automated-bot rule does
  not look at the state and returns true exactly when the user is no requested individual
  reviewer, not the author and no assignee; the composite decision is the answer of the
  automated-bot rule, so the thread is kept only for a user who is involved in one of
  these three ways.
\<close>

theorem renovate_open_pr_decision:
  assumes "subject_type (notification_subject n) = ''PullRequest''"
    and "login (pr_user pr) = ''renovate-sh-app[bot]''"
    and "account_type (pr_user pr) = Some ''Bot''"
    and "pr_state pr = ''open''"
    and "pr_merged pr = False"
  shows "MergedClosedPRFilter_shouldMarkAsDone cu g n (Some pr) = False \<and>
         RenovatePRFilter_shouldMarkAsDone cu g n (Some pr) =
           ((\<forall>r \<in> set (requested_reviewers pr). login r \<noteq> cu) \<and>
            login (pr_user pr) \<noteq> cu \<and>
            (\<forall>a \<in> set (assignees pr). login a \<noteq> cu)) \<and>
         processor_filter cu g n (Some pr) = RenovatePRFilter_shouldMarkAsDone cu g n (Some pr)"
proof -
  have mc: "MergedClosedPRFilter_shouldMarkAsDone cu g n (Some pr) = False"
    using assms by (simp add: MergedClosedPRFilter_shouldMarkAsDone_def)
  have rn: "RenovatePRFilter_shouldMarkAsDone cu g n (Some pr) =
           ((\<forall>r \<in> set (requested_reviewers pr). login r \<noteq> cu) \<and>
            login (pr_user pr) \<noteq> cu \<and>
            (\<forall>a \<in> set (assignees pr). login a \<noteq> cu))"
    using assms
    by (auto simp: RenovatePRFilter_shouldMarkAsDone_def renovate_isDirectReviewer_iff
          array_some_iff)
  have comp: "processor_filter cu g n (Some pr) =
              RenovatePRFilter_shouldMarkAsDone cu g n (Some pr)"
    using mc by (simp add: processor_filter_def processor_filters_def)
  from mc rn comp show ?thesis by blast
qed

theorem renovate_open_pr_decision_witness:
  "MergedClosedPRFilter_shouldMarkAsDone ''bob'' (teams_loaded [])
     (example_notification ''PullRequest'')
     (Some (example_pr ''open'' False renovate_bot [example_account ''bob''] [] [])) = False \<and>
   RenovatePRFilter_shouldMarkAsDone ''bob'' (teams_loaded [])
     (example_notification ''PullRequest'')
     (Some (example_pr ''open'' False renovate_bot [example_account ''bob''] [] [])) = False \<and>
   processor_filter ''bob'' (teams_loaded [])
     (example_notification ''PullRequest'')
     (Some (example_pr ''open'' False renovate_bot [example_account ''bob''] [] [])) = False"
  using renovate_open_pr_decision [of "example_notification ''PullRequest''"
          "example_pr ''open'' False renovate_bot [example_account ''bob''] [] []"
          "''bob''" "teams_loaded []"]
  by (simp add: example_defs)

text \<open>
  C2. For a PullRequest notification with details, the merged/closed rule returns true
  if and only if the state is closed or the merged flag is set, the user is not among the
  requested reviewers, no team of the user's snapshot has a name or a slug equal to the
  name of a requested team, the user is not the author, and the user is not among the
  assignees.
\<close>

theorem merged_closed_rule_iff:
  assumes "subject_type (notification_subject n) = ''PullRequest''"
  shows "MergedClosedPRFilter_shouldMarkAsDone cu g n (Some pr) =
     ((pr_state pr = ''closed'' \<or> pr_merged pr) \<and>
      (\<forall>r \<in> set (requested_reviewers pr). login r \<noteq> cu) \<and>
      (\<forall>ut \<in> set (snapshot_teams g). \<forall>rt \<in> set (requested_teams pr).
          team_name ut \<noteq> requested_team_name rt \<and> team_slug ut \<noteq> requested_team_name rt) \<and>
      login (pr_user pr) \<noteq> cu \<and>
      (\<forall>a \<in> set (assignees pr). login a \<noteq> cu))"
  using assms
  by (auto simp: MergedClosedPRFilter_shouldMarkAsDone_def isDirectReviewer_iff array_some_iff
        Let_def)

theorem merged_closed_rule_iff_witness:
  "MergedClosedPRFilter_shouldMarkAsDone ''bob'' (teams_loaded [])
     (example_notification ''PullRequest'')
     (Some (example_pr ''closed'' False (example_author ''alice'' None) [] [] [])) = True
   \<and> MergedClosedPRFilter_shouldMarkAsDone ''bob'' (teams_loaded [])
     (example_notification ''PullRequest'')
     (Some (example_pr ''closed'' False (example_author ''alice'' None)
              [example_account ''bob''] [] [])) = False"
  using merged_closed_rule_iff [of "example_notification ''PullRequest''" "''bob''"
          "teams_loaded []"
          "example_pr ''closed'' False (example_author ''alice'' None) [] [] []"]
        merged_closed_rule_iff [of "example_notification ''PullRequest''" "''bob''"
          "teams_loaded []"
          "example_pr ''closed'' False (example_author ''alice'' None)
             [example_account ''bob''] [] []"]
  by (simp add: example_defs)

text \<open>
  C3. For a notification whose subject is not a PullRequest, and for a PullRequest
  notification without details, the composite decision of the processor returns false,
  whoever the user is and whatever the team snapshot holds.
\<close>

theorem composite_keeps_without_pr_context:
  assumes "subject_type (notification_subject n) \<noteq> ''PullRequest'' \<or> prd = None"
  shows "processor_filter cu g n prd = False"
  using assms
  by (auto simp: processor_filter_def processor_filters_def
        MergedClosedPRFilter_shouldMarkAsDone_def RenovatePRFilter_shouldMarkAsDone_def)

theorem composite_keeps_without_pr_context_witness:
  "processor_filter ''bob'' (teams_loaded []) (example_notification ''Issue'')
     (Some (example_pr ''closed'' True renovate_bot [] [] [])) = False
   \<and> processor_filter ''bob'' (teams_loaded []) (example_notification ''PullRequest'') None
       = False"
  using composite_keeps_without_pr_context [of "example_notification ''Issue''"
          "Some (example_pr ''closed'' True renovate_bot [] [] [])" "''bob''" "teams_loaded []"]
        composite_keeps_without_pr_context [of "example_notification ''PullRequest''" None
          "''bob''" "teams_loaded []"]
  by (simp add: example_defs)

text \<open>
  C4. When the author object has no account type, as in the declared
  \<^verbatim>\<open>PullRequestDetails\<close> interface (a login and an id only), the test for the bot
  fails and the automated-bot rule returns false, for every notification, user and
  snapshot, with or without details.
\<close>

theorem renovate_rule_needs_account_type:
  assumes "\<forall>pr. prd = Some pr \<longrightarrow> account_type (pr_user pr) = None"
  shows "RenovatePRFilter_shouldMarkAsDone cu g n prd = False"
  using assms by (cases prd) (simp_all add: RenovatePRFilter_shouldMarkAsDone_def)

theorem renovate_rule_needs_account_type_witness:
  "RenovatePRFilter_shouldMarkAsDone ''bob'' (teams_loaded [])
     (example_notification ''PullRequest'')
     (Some (example_pr ''closed'' True (example_author ''renovate-sh-app[bot]'' None) [] [] []))
   = False"
  using renovate_rule_needs_account_type [of
          "Some (example_pr ''closed'' True (example_author ''renovate-sh-app[bot]'' None)
                   [] [] [])"
          "''bob''" "teams_loaded []" "example_notification ''PullRequest''"]
  by (simp add: example_defs)

text \<open>
  C5. For a PullRequest notification with details whose author is the recognised bot,
  and a user who is no requested individual reviewer, not the author and no assignee, the
  automated-bot rule returns true for every team snapshot and every list of requested
  teams: the rule does not consult the teams. (In the instance below a team of the user is
  requested for review, and the rule still returns true.)
\<close>

theorem renovate_rule_skips_team_check:
  assumes "subject_type (notification_subject n) = ''PullRequest''"
    and "login (pr_user pr) = ''renovate-sh-app[bot]''"
    and "account_type (pr_user pr) = Some ''Bot''"
    and "\<forall>r \<in> set (requested_reviewers pr). login r \<noteq> cu"
    and "login (pr_user pr) \<noteq> cu"
    and "\<forall>a \<in> set (assignees pr). login a \<noteq> cu"
  shows "RenovatePRFilter_shouldMarkAsDone cu g n (Some pr) = True"
  using assms
  by (auto simp: RenovatePRFilter_shouldMarkAsDone_def renovate_isDirectReviewer_iff
        array_some_iff)

theorem renovate_rule_skips_team_check_witness:
  "MergedClosedPRFilter_isDirectReviewer ''bob''
     (teams_loaded [example_team ''Platform'' ''platform''])
     (example_pr ''open'' False renovate_bot [] [example_requested_team ''Platform''] []) = True \<and>
   RenovatePRFilter_shouldMarkAsDone ''bob''
     (teams_loaded [example_team ''Platform'' ''platform''])
     (example_notification ''PullRequest'')
     (Some (example_pr ''open'' False renovate_bot [] [example_requested_team ''Platform''] []))
   = True"
  using renovate_rule_skips_team_check [of "example_notification ''PullRequest''"
          "example_pr ''open'' False renovate_bot [] [example_requested_team ''Platform''] []"
          "''bob''" "teams_loaded [example_team ''Platform'' ''platform'']"]
  by (simp add: example_defs MergedClosedPRFilter_isDirectReviewer_def)

text \<open>
  C6. The reviewer test of the merged/closed rule holds exactly when the user is a
  requested individual reviewer, or some team of the snapshot and some requested team
  agree in one of two ways: the team's name equals the requested team's name, or the
  team's slug equals the requested team's name. Strings are compared exactly, so either
  field alone is enough and a difference in letter case is a difference.
\<close>

theorem team_reviewer_match_is_union:
  "MergedClosedPRFilter_isDirectReviewer cu g pr =
     ((\<exists>r\<in>set (requested_reviewers pr). login r = cu) \<or>
      (\<exists>rt\<in>set (requested_teams pr). \<exists>ut\<in>set (snapshot_teams g).
          team_name ut = requested_team_name rt \<or> team_slug ut = requested_team_name rt))"
  by (rule isDirectReviewer_iff)

theorem team_reviewer_match_is_union_witness:
  "MergedClosedPRFilter_isDirectReviewer ''bob''
     (teams_loaded [example_team ''Platform'' ''infra''])
     (example_pr ''closed'' False (example_author ''alice'' None) []
        [example_requested_team ''Platform''] []) = True \<and>
   MergedClosedPRFilter_isDirectReviewer ''bob''
     (teams_loaded [example_team ''Infra Team'' ''platform''])
     (example_pr ''closed'' False (example_author ''alice'' None) []
        [example_requested_team ''platform''] []) = True \<and>
   MergedClosedPRFilter_isDirectReviewer ''bob''
     (teams_loaded [example_team ''Platform'' ''platform''])
     (example_pr ''closed'' False (example_author ''alice'' None) []
        [example_requested_team ''PLATFORM''] []) = False"
  using team_reviewer_match_is_union [of "''bob''"
          "teams_loaded [example_team ''Platform'' ''infra'']"
          "example_pr ''closed'' False (example_author ''alice'' None) []
             [example_requested_team ''Platform''] []"]
        team_reviewer_match_is_union [of "''bob''"
          "teams_loaded [example_team ''Infra Team'' ''platform'']"
          "example_pr ''closed'' False (example_author ''alice'' None) []
             [example_requested_team ''platform''] []"]
        team_reviewer_match_is_union [of "''bob''"
          "teams_loaded [example_team ''Platform'' ''platform'']"
          "example_pr ''closed'' False (example_author ''alice'' None) []
             [example_requested_team ''PLATFORM''] []"]
  by (simp add: example_defs)

section \<open>The team cache\<close>

text \<open>
  C7. For a cache record tagged with the queried username, \<^verbatim>\<open>getCachedTeams\<close>
  returns the teams of the record when \<open>now - timestamp \<le> ttl\<close>, the bound included, and
  nothing when \<open>now - timestamp > ttl\<close>.
\<close>

theorem cache_get_ttl_boundary:
  assumes "fs (getCacheFilePath m u) =
             Some (Json (JsonObject \<lparr>cache_teams = Some ts, cache_timestamp = Some t,
                                     cache_username = Some u\<rparr>))"
  shows "getCachedTeams m fs now u = Inr (if now - t \<le> cacheTTL m then Some ts else None)"
  using assms by (simp add: getCachedTeams_object [where fs = fs and m = m and u = u])

theorem cache_get_ttl_boundary_witness:
  "getCachedTeams example_manager
     (example_fs ''bob''
        (example_record (Some [example_team ''Platform'' ''platform'']) (Some 1000) (Some ''bob'')))
     (1000 + 86400000) ''bob'' = Inr (Some [example_team ''Platform'' ''platform'']) \<and>
   getCachedTeams example_manager
     (example_fs ''bob''
        (example_record (Some [example_team ''Platform'' ''platform'']) (Some 1000) (Some ''bob'')))
     (1000 + 86400000 + 1) ''bob'' = Inr None"
  using cache_get_ttl_boundary [of
          "example_fs ''bob''
             (example_record (Some [example_team ''Platform'' ''platform'']) (Some 1000)
                (Some ''bob''))"
          example_manager "''bob''" "[example_team ''Platform'' ''platform'']" 1000
          "1000 + 86400000"]
        cache_get_ttl_boundary [of
          "example_fs ''bob''
             (example_record (Some [example_team ''Platform'' ''platform'']) (Some 1000)
                (Some ''bob''))"
          example_manager "''bob''" "[example_team ''Platform'' ''platform'']" 1000
          "1000 + 86400000 + 1"]
  by (simp add: cache_defs)

text \<open>
  C8. When the record found for the queried username carries another username (or
  none), \<^verbatim>\<open>getCachedTeams\<close> returns nothing, whatever the timestamp and the teams
  of the record are.
\<close>

theorem cache_get_username_mismatch:
  assumes "fs (getCacheFilePath m u) = Some (Json (JsonObject c))"
    and "cache_username c \<noteq> Some u"
  shows "getCachedTeams m fs now u = Inr None"
  using assms by (simp add: getCachedTeams_object [where fs = fs and m = m and u = u])

theorem cache_get_username_mismatch_witness:
  "getCachedTeams example_manager
     (example_fs ''bob''
        (example_record (Some [example_team ''Platform'' ''platform'']) (Some 1000)
           (Some ''alice'')))
     2000 ''bob'' = Inr None"
  using cache_get_username_mismatch [of
          "example_fs ''bob''
             (example_record (Some [example_team ''Platform'' ''platform'']) (Some 1000)
                (Some ''alice''))"
          example_manager "''bob''"
          "\<lparr>cache_teams = Some [example_team ''Platform'' ''platform''],
            cache_timestamp = Some 1000, cache_username = Some ''alice''\<rparr>"
          2000]
  by (simp add: cache_defs)

text \<open>
  What \<^verbatim>\<open>getCachedTeams\<close> does when reading fails. It never raises: for every
  input it returns a result. The result is nothing when the file is missing, cannot be
  read, does not parse, or parses to \<^verbatim>\<open>null\<close>.
\<close>

lemma getCachedTeams_failed_read:
  "(\<exists>result. getCachedTeams m fs now u = Inr result) \<and>
   (fs (getCacheFilePath m u) \<in> {None, Some Unreadable, Some Unparsable, Some (Json JsonNull)}
      \<longrightarrow> getCachedTeams m fs now u = Inr None)"
proof -
  have total: "\<exists>result. getCachedTeams m fs now u = Inr result"
    by (simp add: getCachedTeams_def split: sum.split)
  have failing:
    "fs (getCacheFilePath m u) \<in> {None, Some Unreadable, Some Unparsable, Some (Json JsonNull)}
      \<longrightarrow> getCachedTeams m fs now u = Inr None"
    by (auto simp: getCachedTeams_def getCachedTeams_try_def pathExists_def readJson_def)
  from total failing show ?thesis by blast
qed

text \<open>
  C9. The claim: \<^verbatim>\<open>getCachedTeams\<close> never raises, and a missing, unreadable or
  corrupt record, a malformed one included, yields nothing. The code misses one case.
  The file of bob parses to an object with bob's username and a list of teams, but with
  no timestamp property. The age \<^verbatim>\<open>now - undefined\<close> is then not a number, the
  expiry test \<^verbatim>\<open>cacheAge > cacheTTL\<close> is false, and the teams of the malformed
  record are returned, at every time \<open>now\<close>: the record never expires.
\<close>

theorem cache_get_serves_record_without_timestamp:
  "getCachedTeams example_manager
     (example_fs ''bob''
        (example_record (Some [example_team ''Platform'' ''platform'']) None (Some ''bob'')))
     now ''bob'' = Inr (Some [example_team ''Platform'' ''platform''])"
  by (simp add: cache_defs getCachedTeams_def getCachedTeams_try_def pathExists_def
        readJson_def)

section \<open>The team-load stage\<close>

text \<open>
  C10. When the team lookup raises, \<^verbatim>\<open>loadUserTeams\<close> does not raise and leaves an
  empty snapshot; the run does not abort: with the list of threads fetched, it ends
  without an error, the snapshot is still empty at the end, the failure is in the log as
  a warning, and every fetched thread has been taken up by the loop.
\<close>

theorem team_load_failure_does_not_abort:
  assumes "proc_userTeams p = None"
    and "client_getUserTeams (proc_githubClient p) (proc_currentUser p) (proc_invalidateCache p)
           = Inl error"
    and "client_getNotifications (proc_githubClient p) = Inr notifications"
  shows "(\<exists>p1. loadUserTeams p = Inr p1 \<and> proc_userTeams p1 = Some []) \<and>
         fst (processNotifications p) = Inr () \<and>
         proc_userTeams (snd (processNotifications p)) = Some [] \<and>
         (LogWarn, FailedToLoadTeams (proc_currentUser p) error)
            \<in> set (proc_log (snd (processNotifications p))) \<and>
         (\<forall>n\<in>set notifications.
            (LogDebug, ProcessingThread (notification_id n) (subject_title (notification_subject n)))
              \<in> set (proc_log (snd (processNotifications p))))"
proof -
  let ?p0 = "logger LogInfo StartingThreadProcessing p"
  let ?w = "(LogWarn, FailedToLoadTeams (proc_currentUser p) error)"
  define p1 where
    "p1 = (logger LogWarn (FailedToLoadTeams (proc_currentUser p) error)
             (logger LogInfo (LoadingTeams (proc_currentUser p)) ?p0))\<lparr>proc_userTeams := Some []\<rparr>"
  have load0: "\<exists>q. loadUserTeams p = Inr q \<and> proc_userTeams q = Some []"
    using assms(1,2) by (simp add: loadUserTeams_def Let_def)
  have load: "loadUserTeams ?p0 = Inr p1"
    using assms(1,2) by (simp add: loadUserTeams_def Let_def p1_def)
  have p1: "proc_userTeams p1 = Some []" "?w \<in> set (proc_log p1)"
    "client_getNotifications (proc_githubClient p1) = Inr notifications"
    using assms(3) by (simp_all add: p1_def)
  show ?thesis
  proof (cases "notifications = []")
    case True
    with load p1 load0 show ?thesis by (simp add: processNotifications_def Let_def)
  next
    case False
    obtain p2 a b where loop: "processThreads notifications (p1, 0, 0) = (p2, a, b)"
      by (cases "processThreads notifications (p1, 0, 0)")
    from processThreads_keeps [OF loop] p1
    have k: "proc_userTeams p2 = Some []" "?w \<in> set (proc_log p2)"
      "\<forall>n\<in>set notifications.
         (LogDebug, ProcessingThread (notification_id n) (subject_title (notification_subject n)))
           \<in> set (proc_log p2)"
      by auto
    have run: "processNotifications p =
        (Inr (), logger LogInfo (ProcessingComplete a b (proc_dryRun p2)) p2)"
      using load p1(3) False loop by (simp add: processNotifications_def Let_def)
    from run k load0 show ?thesis by simp
  qed
qed

theorem team_load_failure_does_not_abort_witness:
  "fst (processNotifications
          (NotificationProcessor_new (failing_teams_client [example_notification ''PullRequest''])
             ''bob'' False False)) = Inr () \<and>
   proc_userTeams (snd (processNotifications
          (NotificationProcessor_new (failing_teams_client [example_notification ''PullRequest''])
             ''bob'' False False))) = Some [] \<and>
   (LogWarn, FailedToLoadTeams ''bob'' HttpError) \<in> set (proc_log (snd (processNotifications
          (NotificationProcessor_new (failing_teams_client [example_notification ''PullRequest''])
             ''bob'' False False)))) \<and>
   (LogDebug, ProcessingThread ''1001'' ''Update dependency'')
      \<in> set (proc_log (snd (processNotifications
          (NotificationProcessor_new (failing_teams_client [example_notification ''PullRequest''])
             ''bob'' False False))))"
  using team_load_failure_does_not_abort [of
          "NotificationProcessor_new (failing_teams_client [example_notification ''PullRequest''])
             ''bob'' False False" HttpError "[example_notification ''PullRequest'']"]
  by (simp add: NotificationProcessor_new_def failing_teams_client_def example_notification_def)

end
